theory Spec2Isabelle
  imports Main
begin

section \<open>Data model (settings.ts)\<close>

text \<open>
  The members of the enumeration \<open>RepositoryType\<close> that \<open>create\<close> tests. The file
  declaring the enumeration is not part of the sources at hand; the field is filled from
  a parsed YAML document, so at run time it can hold a value that is none of the four
  members: that is \<open>OTHER\<close>, carrying the text found.
\<close>

datatype RepositoryType = DUMMY | FILE | GIT | RSYNC | OTHER string

text \<open>A hook is \<open>string | string[]\<close>.\<close>

datatype HookCommand = One string | Many "string list"

record Hooks =
  preDownload :: "HookCommand option"
  postDownload :: "HookCommand option"
  preUpload :: "HookCommand option"
  postUpload :: "HookCommand option"

record RepositorySettings =
  branch :: "string option"
  messages :: "(string \<times> string) list option"
  path :: "string option"
  shell :: "string option"
  type :: RepositoryType
  url :: "string option"

datatype ExtensionKindName = auto | ui | workspace

record SettingsData =
  extensionKind :: "ExtensionKindName option"
  hooks :: "Hooks option"
  hostname :: "string option"
  profile :: "string option"
  repository :: "RepositorySettings option"

text \<open>The private fields of class \<open>Settings\<close> (\<open>_hash\<close>, \<open>_hooks\<close>, ...).\<close>

record Settings =
  s_hash :: string
  s_hooks :: Hooks
  s_hostname :: "string option"
  s_profile :: string
  s_remote :: bool
  s_repository :: RepositorySettings

text \<open>The object literals \<open>{}\<close> of the two interfaces, and \<open>{type: RepositoryType.DUMMY}\<close>.\<close>

definition noHooks :: Hooks where
  "noHooks = \<lparr>preDownload = None, postDownload = None, preUpload = None, postUpload = None\<rparr>"

definition emptyData :: SettingsData where
  "emptyData = \<lparr>extensionKind = None, hooks = None, hostname = None, profile = None,
     repository = None\<rparr>"

definition dummyRepository :: RepositorySettings where
  "dummyRepository = \<lparr>branch = None, messages = None, path = None, shell = None,
     type = DUMMY, url = None\<rparr>"

definition defaults :: SettingsData where
  "defaults = \<lparr>extensionKind = None, hooks = None, hostname = Some '''', profile = Some ''main'',
     repository = Some \<lparr>branch = None, messages = None, path = Some '''', shell = None,
       type = DUMMY, url = None\<rparr>\<rparr>"

text \<open>
  JavaScript truthiness of an optional string: \<open>undefined\<close> and the empty string are
  falsy. \<open>orEmpty\<close> is \<open>data ?? ''\<close>.
\<close>

definition truthy :: "string option \<Rightarrow> bool" where
  "truthy v = (case v of None \<Rightarrow> False | Some s \<Rightarrow> s \<noteq> [])"

definition orEmpty :: "string option \<Rightarrow> string" where
  "orEmpty v = (case v of None \<Rightarrow> [] | Some s \<Rightarrow> s)"

text \<open>\<open>Object.keys(hooks)\<close>.\<close>

definition Hooks_keys :: "Hooks \<Rightarrow> string list" where
  "Hooks_keys h =
     (case preDownload h of None \<Rightarrow> [] | Some _ \<Rightarrow> [''preDownload'']) @
     (case postDownload h of None \<Rightarrow> [] | Some _ \<Rightarrow> [''postDownload'']) @
     (case preUpload h of None \<Rightarrow> [] | Some _ \<Rightarrow> [''preUpload'']) @
     (case postUpload h of None \<Rightarrow> [] | Some _ \<Rightarrow> [''postUpload''])"

section \<open>Backends, effects and the primitives outside the sources\<close>

text \<open>
  The five backend classes live in \<open>repositories/*.ts\<close>, which is not among the sources.
  An instance is known here by the class it was built from and by its identity (the
  number of objects allocated before it), which is what reference equality compares.
\<close>

datatype RepositoryClass =
  DummyRepository | FileRepository | LocalGitRepository | RemoteGitRepository | RsyncRepository

record Repository =
  ident :: nat
  variant :: RepositoryClass

datatype error =
    NotInitialized \<comment> \<open>\<open>The settings are not initialized\<close>\<close>
  | MysteriousType RepositoryType \<comment> \<open>\<open>The repository has a mysterious type: ...\<close>\<close>
  | BackendError \<comment> \<open>a rejected \<open>setProfile\<close> or \<open>terminate\<close> of a backend\<close>
  | YamlError \<comment> \<open>\<open>yaml.parse\<close> threw\<close>

text \<open>Everything the code does that can be seen from outside, in the order it happens.\<close>

datatype event =
    InfoRepository "RepositorySettings option" \<comment> \<open>\<open>Logger.info('repository:', ...)\<close>\<close>
  | InfoProfile string
  | InfoHostname string
  | LogError string
  | FsRead string \<comment> \<open>\<open>settings.yml\<close> exists and \<open>readFile\<close> gave these bytes\<close>
  | FsMissing \<comment> \<open>\<open>exists(settings.yml)\<close> was false\<close>
  | FsReadDefault string \<comment> \<open>the bundled \<open>default-settings.yml\<close> was read\<close>
  | FsWrite string \<comment> \<open>\<open>writeFile(settings.yml, bytes)\<close>\<close>
  | Constructed Repository \<comment> \<open>\<open>new XRepository(settings)\<close>\<close>
  | BackendSetProfile Repository string \<comment> \<open>\<open>instance.setProfile(profile)\<close>\<close>
  | Terminated Repository \<comment> \<open>\<open>instance.terminate()\<close>\<close>

datatype parsed = ParseThrows | ParsedNull | Parsed SettingsData

text \<open>
  The library functions and backend methods the two source files call but do not define,
  taken as parameters: the SHA1 hex digest, the YAML parser and printer, and whether a
  backend's \<open>setProfile\<close> and \<open>terminate\<close> resolve or reject. Reading and writing
  \<open>settings.yml\<close> is taken to succeed.
\<close>

record externals =
  sha1_hex :: "string \<Rightarrow> string"
  yaml_parse :: "string \<Rightarrow> parsed"
  yaml_stringify :: "SettingsData \<Rightarrow> string"
  setProfile_resolves :: "Repository \<Rightarrow> string \<Rightarrow> bool"
  terminate_resolves :: "Repository \<Rightarrow> bool"

text \<open>
  The two module variables \<open>$instance\<close> (one per source file), the settings file on disk
  (\<open>None\<close> when it does not exist), the allocation counter and the trace.
\<close>

record world =
  settingsInstance :: "Settings option"
  repositoryInstance :: "Repository option"
  settingsFile :: "string option"
  allocated :: nat
  events :: "event list"

text \<open>What the activation context contributes to \<open>Settings.load\<close>.\<close>

record ExtensionContext =
  isWorkspace :: bool \<comment> \<open>\<open>context.extension.extensionKind === ExtensionKind.Workspace\<close>\<close>
  defaultSettings :: "string option" \<comment> \<open>the bundled template, when it exists\<close>

definition emit :: "event list \<Rightarrow> world \<Rightarrow> world" where
  "emit es w = w\<lparr>events := events w @ es\<rparr>"

text \<open>\<open>yaml.parse(data) ?? {}\<close>; \<open>None\<close> when the parser throws.\<close>

definition parseOrEmpty :: "externals \<Rightarrow> string \<Rightarrow> SettingsData option" where
  "parseOrEmpty X s =
     (case yaml_parse X s of
        ParseThrows \<Rightarrow> None
      | ParsedNull \<Rightarrow> Some emptyData
      | Parsed d \<Rightarrow> Some d)"

text \<open>\<open>exists(path) ? readFile(path) : null\<close> as an event.\<close>

definition readEvent :: "string option \<Rightarrow> event" where
  "readEvent data = (case data of None \<Rightarrow> FsMissing | Some d \<Rightarrow> FsRead d)"

definition instance_setProfile ::
  "externals \<Rightarrow> Repository \<Rightarrow> string \<Rightarrow> world \<Rightarrow> (error + unit) \<times> world" where
  "instance_setProfile X i p w =
     (if setProfile_resolves X i p then Inr () else Inl BackendError,
      emit [BackendSetProfile i p] w)"

definition instance_terminate ::
  "externals \<Rightarrow> Repository \<Rightarrow> world \<Rightarrow> (error + unit) \<times> world" where
  "instance_terminate X i w =
     (if terminate_resolves X i then Inr () else Inl BackendError,
      emit [Terminated i] w)"

section \<open>Settings (settings.ts)\<close>

definition Settings_new :: "bool \<Rightarrow> Settings" where
  "Settings_new r = \<lparr>s_hash = [], s_hooks = noHooks, s_hostname = None, s_profile = [],
     s_remote = r, s_repository = dummyRepository\<rparr>"

text \<open>
  \<open>Settings.set\<close>: the new field values and what is logged. The replacer that masks
  \<open>password\<close> and \<open>token\<close> has nothing to mask in a \<open>RepositorySettings\<close>.
\<close>

definition Settings_set :: "Settings \<Rightarrow> SettingsData \<Rightarrow> Settings \<times> event list" where
  "Settings_set this data =
     (let log1 = [InfoRepository (repository data)];
          log2 = (if truthy (profile data) then [InfoProfile (orEmpty (profile data))]
                  else [LogError ''The `profile` property is required'']);
          log3 = (if truthy (hostname data) then [InfoHostname (orEmpty (hostname data))]
                  else []);
          r = (case extensionKind data of
                 None \<Rightarrow> s_remote this
               | Some k \<Rightarrow> if k \<noteq> auto then k = workspace else s_remote this)
      in case repository data of
           Some repo \<Rightarrow>
             (this\<lparr>s_hooks := (case hooks data of None \<Rightarrow> noHooks | Some h \<Rightarrow> h),
                    s_hostname := hostname data,
                    s_profile := orEmpty (profile data),
                    s_remote := r,
                    s_repository := repo\<rparr>,
              log1 @ log2 @ log3)
         | None \<Rightarrow>
             (this\<lparr>s_hooks := (case hooks data of None \<Rightarrow> noHooks | Some h \<Rightarrow> h),
                    s_hostname := Some [],
                    s_profile := [],
                    s_remote := r,
                    s_repository := dummyRepository\<rparr>,
              log1 @ log2 @ log3 @
                [LogError ''No `repository` property has been defined in the settings'']))"

text \<open>\<open>Settings.get\<close>.\<close>

definition Settings_get :: "world \<Rightarrow> error + Settings" where
  "Settings_get w = (case settingsInstance w of Some s \<Rightarrow> Inr s | None \<Rightarrow> Inl NotInitialized)"

text \<open>The object \<open>settings\<close> that \<open>save\<close> builds before it prints it.\<close>

definition savedData :: "Settings \<Rightarrow> SettingsData" where
  "savedData this =
     emptyData\<lparr>hooks := (if length (Hooks_keys (s_hooks this)) > 0 then Some (s_hooks this)
                         else None),
               hostname := (case s_hostname this of Some h \<Rightarrow> Some h | None \<Rightarrow> None),
               profile := Some (s_profile this),
               repository := Some (s_repository this)\<rparr>"

text \<open>
  The methods below act on the object held in \<open>$instance\<close>: every call in the code goes
  through \<open>Settings.get()\<close>, whose throw is the \<open>None\<close> branch.
\<close>

definition Settings_save :: "externals \<Rightarrow> world \<Rightarrow> (error + unit) \<times> world" where
  "Settings_save X w =
     (case settingsInstance w of
        None \<Rightarrow> (Inl NotInitialized, w)
      | Some this \<Rightarrow>
          (let data = yaml_stringify X (savedData this);
               this1 = this\<lparr>s_hash := sha1_hex X data\<rparr>
           in (Inr (),
               emit [FsWrite data]
                 (w\<lparr>settingsInstance := Some this1, settingsFile := Some data\<rparr>))))"

definition Settings_setProfile :: "externals \<Rightarrow> string \<Rightarrow> world \<Rightarrow> (error + unit) \<times> world" where
  "Settings_setProfile X p w =
     (case settingsInstance w of
        None \<Rightarrow> (Inl NotInitialized, w)
      | Some this \<Rightarrow> Settings_save X (w\<lparr>settingsInstance := Some (this\<lparr>s_profile := p\<rparr>)\<rparr>))"

definition Settings_reload :: "externals \<Rightarrow> world \<Rightarrow> (error + bool) \<times> world" where
  "Settings_reload X w0 =
     (case settingsInstance w0 of
        None \<Rightarrow> (Inl NotInitialized, w0)
      | Some this \<Rightarrow>
          (let data = settingsFile w0;
               w = emit [readEvent data] w0;
               hash = sha1_hex X (orEmpty data)
           in if s_hash this \<noteq> hash then
                (case (if truthy data then parseOrEmpty X (orEmpty data) else Some defaults) of
                   None \<Rightarrow> (Inl YamlError, w)
                 | Some d \<Rightarrow>
                     (let (this1, log) = Settings_set this d;
                          this2 = this1\<lparr>s_hash := hash\<rparr>
                      in (Inr True, emit log (w\<lparr>settingsInstance := Some this2\<rparr>))))
              else (Inr False, w)))"

text \<open>\<open>Settings.load\<close>; it returns what \<open>$instance\<close> holds at the end.\<close>

definition Settings_load ::
  "externals \<Rightarrow> ExtensionContext \<Rightarrow> world \<Rightarrow> (error + Settings option) \<times> world" where
  "Settings_load X context w0 =
     (let this = Settings_new (isWorkspace context);
          data = settingsFile w0;
          w = emit [readEvent data] (w0\<lparr>settingsInstance := Some this\<rparr>)
      in if truthy data then
           (case parseOrEmpty X (orEmpty data) of
              None \<Rightarrow> (Inl YamlError, w)
            | Some d \<Rightarrow>
                (let (this1, log) = Settings_set this d;
                     this2 = this1\<lparr>s_hash := sha1_hex X (orEmpty data)\<rparr>
                 in (Inr (Some this2), emit log (w\<lparr>settingsInstance := Some this2\<rparr>))))
         else
           (case defaultSettings context of
              Some ddata \<Rightarrow>
                (let w1 = emit [FsReadDefault ddata] w
                 in case parseOrEmpty X ddata of
                      None \<Rightarrow> (Inl YamlError, w1)
                    | Some d \<Rightarrow>
                        (let (this1, log) = Settings_set this d;
                             this2 = this1\<lparr>s_hash := sha1_hex X ddata\<rparr>
                         in (Inr (Some this2),
                             emit (log @ [FsWrite ddata])
                               (w1\<lparr>settingsInstance := Some this2,
                                   settingsFile := Some ddata\<rparr>))))
            | None \<Rightarrow>
                (let (this1, log) = Settings_set this defaults;
                     w1 = emit log (w\<lparr>settingsInstance := Some this1\<rparr>)
                 in case Settings_save X w1 of
                      (Inl e, w2) \<Rightarrow> (Inl e, w2)
                    | (Inr _, w2) \<Rightarrow> (Inr (settingsInstance w2), w2))))"

section \<open>RepositoryFactory (repository-factory.ts)\<close>

text \<open>\<open>$instance = new C(settings)\<close>.\<close>

definition construct :: "RepositoryClass \<Rightarrow> world \<Rightarrow> world" where
  "construct c w =
     (let i = \<lparr>ident = allocated w, variant = c\<rparr>
      in emit [Constructed i] (w\<lparr>repositoryInstance := Some i, allocated := Suc (allocated w)\<rparr>))"

definition create :: "externals \<Rightarrow> Settings \<Rightarrow> world \<Rightarrow> (error + unit) \<times> world" where
  "create X settings w0 =
     (let w = w0\<lparr>repositoryInstance := None\<rparr>;
          repo = s_repository settings;
          w1 = (if type repo = DUMMY then construct DummyRepository w
                else if type repo = FILE then construct FileRepository w
                else if type repo = GIT then
                  (if truthy (path repo) then construct LocalGitRepository w
                   else if truthy (url repo) then construct RemoteGitRepository w
                   else w)
                else if type repo = RSYNC then construct RsyncRepository w
                else w)
      in case repositoryInstance w1 of
           None \<Rightarrow> (Inl (MysteriousType (type repo)), w1)
         | Some i \<Rightarrow> instance_setProfile X i (s_profile settings) w1)"

text \<open>\<open>RepositoryFactory.get\<close>; it returns what \<open>$instance\<close> holds (\<open>$instance!\<close>).\<close>

definition RepositoryFactory_get ::
  "externals \<Rightarrow> world \<Rightarrow> (error + Repository option) \<times> world" where
  "RepositoryFactory_get X w =
     (case repositoryInstance w of
        Some i \<Rightarrow> (Inr (Some i), w)
      | None \<Rightarrow>
          (case Settings_get w of
             Inl e \<Rightarrow> (Inl e, w)
           | Inr settings \<Rightarrow>
               (case create X settings w of
                  (Inl e, w1) \<Rightarrow> (Inl e, w1)
                | (Inr _, w1) \<Rightarrow> (Inr (repositoryInstance w1), w1))))"

definition RepositoryFactory_reload :: "externals \<Rightarrow> world \<Rightarrow> (error + bool) \<times> world" where
  "RepositoryFactory_reload X w =
     (case Settings_get w of
        Inl e \<Rightarrow> (Inl e, w)
      | Inr _ \<Rightarrow>
          (case Settings_reload X w of
             (Inl e, w1) \<Rightarrow> (Inl e, w1)
           | (Inr changed, w1) \<Rightarrow>
               if changed then
                 (case repositoryInstance w1 of
                    Some i \<Rightarrow>
                      (case instance_terminate X i w1 of
                         (Inl e, w2) \<Rightarrow> (Inl e, w2)
                       | (Inr _, w2) \<Rightarrow>
                           (case Settings_get w2 of
                              Inl e \<Rightarrow> (Inl e, w2)
                            | Inr settings \<Rightarrow>
                                (case create X settings w2 of
                                   (Inl e, w3) \<Rightarrow> (Inl e, w3)
                                 | (Inr _, w3) \<Rightarrow> (Inr True, w3))))
                  | None \<Rightarrow> (Inr True, w1))
               else (Inr False, w1)))"

definition RepositoryFactory_reset :: "externals \<Rightarrow> world \<Rightarrow> (error + unit) \<times> world" where
  "RepositoryFactory_reset X w =
     (case repositoryInstance w of
        Some i \<Rightarrow>
          (case instance_terminate X i w of
             (Inl e, w1) \<Rightarrow> (Inl e, w1)
           | (Inr _, w1) \<Rightarrow> (Inr (), w1\<lparr>repositoryInstance := None\<rparr>))
      | None \<Rightarrow> (Inr (), w))"

definition RepositoryFactory_setProfile ::
  "externals \<Rightarrow> string \<Rightarrow> world \<Rightarrow> (error + unit) \<times> world" where
  "RepositoryFactory_setProfile X p w =
     (case (case repositoryInstance w of
              Some i \<Rightarrow> instance_setProfile X i p w
            | None \<Rightarrow> (Inr (), w)) of
        (Inl e, w1) \<Rightarrow> (Inl e, w1)
      | (Inr _, w1) \<Rightarrow>
          (case Settings_get w1 of
             Inl e \<Rightarrow> (Inl e, w1)
           | Inr _ \<Rightarrow> Settings_setProfile X p w1))"

section \<open>Notions used to state the properties\<close>

text \<open>
  The branch conditions of \<open>create\<close> as a relation between the repository settings and
  the class that is instantiated.
\<close>

definition selects :: "RepositorySettings \<Rightarrow> RepositoryClass \<Rightarrow> bool" where
  "selects repo c \<longleftrightarrow>
     type repo = DUMMY \<and> c = DummyRepository \<or>
     type repo = FILE \<and> c = FileRepository \<or>
     type repo = GIT \<and> truthy (path repo) \<and> c = LocalGitRepository \<or>
     type repo = GIT \<and> \<not> truthy (path repo) \<and> truthy (url repo) \<and> c = RemoteGitRepository \<or>
     type repo = RSYNC \<and> c = RsyncRepository"

text \<open>
  The bytes an event moved between the process and the disk; finding no settings file
  moves none. \<open>last_io\<close> is the bytes of the most recent such event of a trace.
\<close>

fun io_bytes :: "event \<Rightarrow> string option" where
  "io_bytes (FsRead d) = Some d"
| "io_bytes (FsReadDefault d) = Some d"
| "io_bytes (FsWrite d) = Some d"
| "io_bytes _ = None"

fun last_io :: "event list \<Rightarrow> string option" where
  "last_io [] = None"
| "last_io (e # es) = (case last_io es of Some b \<Rightarrow> Some b | None \<Rightarrow> io_bytes e)"

text \<open>The stored hash is the digest of the bytes last read or written.\<close>

definition hash_in_sync :: "externals \<Rightarrow> world \<Rightarrow> bool" where
  "hash_in_sync X w =
     (case settingsInstance w of
        None \<Rightarrow> False
      | Some s \<Rightarrow> (case last_io (events w) of None \<Rightarrow> False | Some b \<Rightarrow> s_hash s = sha1_hex X b))"

text \<open>A live backend instance implies initialised settings.\<close>

definition consistent :: "world \<Rightarrow> bool" where
  "consistent w \<longleftrightarrow> (repositoryInstance w \<noteq> None \<longrightarrow> settingsInstance w \<noteq> None)"

text \<open>
  The calls the host can make on the two singletons, and an edit of the settings file from
  outside the process. \<open>perform\<close> runs one call and keeps the world it leaves, whether
  the call returned or threw.
\<close>

datatype call =
    Get | SetProfile string | Reload | Reset
  | StoreLoad ExtensionContext | StoreSave | StoreSetProfile string | StoreReload
  | Edit "string option"

fun perform :: "externals \<Rightarrow> call \<Rightarrow> world \<Rightarrow> world" where
  "perform X Get w = snd (RepositoryFactory_get X w)"
| "perform X (SetProfile p) w = snd (RepositoryFactory_setProfile X p w)"
| "perform X Reload w = snd (RepositoryFactory_reload X w)"
| "perform X Reset w = snd (RepositoryFactory_reset X w)"
| "perform X (StoreLoad ctx) w = snd (Settings_load X ctx w)"
| "perform X StoreSave w = snd (Settings_save X w)"
| "perform X (StoreSetProfile p) w = snd (Settings_setProfile X p w)"
| "perform X StoreReload w = snd (Settings_reload X w)"
| "perform X (Edit f) w = w\<lparr>settingsFile := f\<rparr>"

fun performAll :: "externals \<Rightarrow> call list \<Rightarrow> world \<Rightarrow> world" where
  "performAll X [] w = w"
| "performAll X (c # cs) w = performAll X cs (perform X c w)"

text \<open>
  A call that is neither \<open>reset()\<close> nor a \<open>reload()\<close> on which \<open>Settings.reload\<close>
  reports a change, and a sequence made of such calls only.
\<close>

fun keepsInstance :: "externals \<Rightarrow> call \<Rightarrow> world \<Rightarrow> bool" where
  "keepsInstance X Reset w = False"
| "keepsInstance X Reload w = (fst (Settings_reload X w) \<noteq> Inr True)"
| "keepsInstance X c w = True"

fun undisturbed :: "externals \<Rightarrow> call list \<Rightarrow> world \<Rightarrow> bool" where
  "undisturbed X [] w = True"
| "undisturbed X (c # cs) w = (keepsInstance X c w \<and> undisturbed X cs (perform X c w))"

text \<open>The instances constructed along a trace, in order.\<close>

fun constructed :: "event list \<Rightarrow> Repository list" where
  "constructed [] = []"
| "constructed (Constructed i # es) = i # constructed es"
| "constructed (e # es) = constructed es"

section \<open>A concrete instance, for evaluation\<close>

text \<open>
  A handful of documents, a printer and a parser that know exactly these documents, a
  stand-in digest that is injective, and backends that reject only the profile
  \<open>broken\<close>. They serve to run the model on explicit inputs.
\<close>

definition demoFileRepo :: RepositorySettings where
  "demoFileRepo = \<lparr>branch = None, messages = None, path = Some ''/sync'', shell = None,
     type = FILE, url = None\<rparr>"

definition demoMain :: SettingsData where
  "demoMain = \<lparr>extensionKind = None, hooks = None, hostname = Some ''laptop'',
     profile = Some ''main'', repository = Some demoFileRepo\<rparr>"

definition demoWork :: SettingsData where
  "demoWork = demoMain\<lparr>profile := Some ''work''\<rparr>"

definition demoGitBoth :: SettingsData where
  "demoGitBoth = demoMain\<lparr>repository := Some (demoFileRepo\<lparr>type := GIT,
     url := Some ''https://example.org/sync.git''\<rparr>)\<rparr>"

definition demoGitNeither :: SettingsData where
  "demoGitNeither = demoMain\<lparr>repository := Some (demoFileRepo\<lparr>type := GIT, path := None\<rparr>)\<rparr>"

definition demoGitEmptyPath :: SettingsData where
  "demoGitEmptyPath = demoMain\<lparr>repository := Some (demoFileRepo\<lparr>type := GIT, path := Some [],
     url := Some ''https://example.org/sync.git''\<rparr>)\<rparr>"

definition demoNoRepository :: SettingsData where
  "demoNoRepository = emptyData\<lparr>profile := Some ''work''\<rparr>"

definition demoDocuments :: "(string \<times> SettingsData) list" where
  "demoDocuments =
     [(''{hostname: laptop, profile: main, repository: {path: /sync, type: file}}'', demoMain),
      (''{hostname: laptop, profile: work, repository: {path: /sync, type: file}}'', demoWork),
      (''{hostname: laptop, profile: main, repository: {path: /sync, type: git, url: https://example.org/sync.git}}'',
         demoGitBoth),
      (''{hostname: laptop, profile: main, repository: {type: git}}'', demoGitNeither),
      (''{hostname: laptop, profile: main, repository: {path: !!str , type: git, url: https://example.org/sync.git}}'',
         demoGitEmptyPath),
      (''{profile: work}'', demoNoRepository)]"

definition demoParse :: "string \<Rightarrow> parsed" where
  "demoParse s =
     (case map_of demoDocuments s of
        Some d \<Rightarrow> Parsed d
      | None \<Rightarrow> if s = ''null'' then ParsedNull else ParseThrows)"

definition demoStringify :: "SettingsData \<Rightarrow> string" where
  "demoStringify d =
     (case find (\<lambda>kv. snd kv = d) demoDocuments of Some kv \<Rightarrow> fst kv | None \<Rightarrow> ''{}'')"

definition demoExternals :: externals where
  "demoExternals = \<lparr>sha1_hex = (\<lambda>s. ''sha1:'' @ s), yaml_parse = demoParse,
     yaml_stringify = demoStringify,
     setProfile_resolves = (\<lambda>i p. p \<noteq> ''broken''),
     terminate_resolves = (\<lambda>i. True)\<rparr>"

definition demoSettings :: "SettingsData \<Rightarrow> Settings" where
  "demoSettings d = (fst (Settings_set (Settings_new False) d))
     \<lparr>s_hash := sha1_hex demoExternals (demoStringify d)\<rparr>"

definition demoWorld :: "SettingsData \<Rightarrow> Repository option \<Rightarrow> string option \<Rightarrow> world" where
  "demoWorld d i file = \<lparr>settingsInstance = Some (demoSettings d), repositoryInstance = i,
     settingsFile = file, allocated = (case i of None \<Rightarrow> 0 | Some r \<Rightarrow> Suc (ident r)),
     events = []\<rparr>"

definition demoLive :: Repository where
  "demoLive = \<lparr>ident = 0, variant = FileRepository\<rparr>"

definition demoContext :: ExtensionContext where
  "demoContext = \<lparr>isWorkspace = False, defaultSettings = None\<rparr>"

section \<open>Basic facts\<close>

lemmas demo_defs = demoLive_def demoContext_def demoFileRepo_def demoMain_def demoWork_def
  demoGitBoth_def demoGitNeither_def demoGitEmptyPath_def demoNoRepository_def
  demoDocuments_def demoParse_def demoStringify_def demoExternals_def demoSettings_def
  demoWorld_def Settings_set_def Settings_new_def emptyData_def noHooks_def
  dummyRepository_def truthy_def orEmpty_def Let_def split_beta

lemmas model_defs = RepositoryFactory_get_def Settings_get_def create_def construct_def emit_def
  instance_setProfile_def instance_terminate_def RepositoryFactory_reload_def
  Settings_reload_def Settings_save_def Settings_load_def Settings_setProfile_def
  RepositoryFactory_setProfile_def RepositoryFactory_reset_def parseOrEmpty_def readEvent_def
  savedData_def Hooks_keys_def

lemma emit_simps [simp]:
  "events (emit es w) = events w @ es"
  "settingsInstance (emit es w) = settingsInstance w"
  "repositoryInstance (emit es w) = repositoryInstance w"
  "settingsFile (emit es w) = settingsFile w"
  "allocated (emit es w) = allocated w"
  by (simp_all add: emit_def)

lemma construct_simps [simp]:
  "repositoryInstance (construct c w) = Some \<lparr>ident = allocated w, variant = c\<rparr>"
  "events (construct c w) = events w @ [Constructed \<lparr>ident = allocated w, variant = c\<rparr>]"
  "settingsInstance (construct c w) = settingsInstance w"
  "settingsFile (construct c w) = settingsFile w"
  "allocated (construct c w) = Suc (allocated w)"
  by (simp_all add: construct_def Let_def)

lemma create_selects:
  assumes "selects (s_repository s) c"
  shows "create X s w =
     instance_setProfile X \<lparr>ident = allocated w, variant = c\<rparr> (s_profile s)
       (construct c (w\<lparr>repositoryInstance := None\<rparr>))"
  using assms by (auto simp: create_def selects_def Let_def)

lemma create_mysterious:
  assumes "\<forall>c. \<not> selects (s_repository s) c"
  shows "create X s w = (Inl (MysteriousType (type (s_repository s))), w\<lparr>repositoryInstance := None\<rparr>)"
  using assms by (auto simp: create_def selects_def Let_def)

lemma create_settingsInstance [simp]:
  "settingsInstance (snd (create X s w)) = settingsInstance w"
  by (simp add: create_def instance_setProfile_def Let_def split: option.splits)

lemma last_io_append:
  "last_io (xs @ ys) = (case last_io ys of Some b \<Rightarrow> Some b | None \<Rightarrow> last_io xs)"
  by (induction xs) (auto split: option.splits)

lemma last_io_silent: "\<forall>e \<in> set ys. io_bytes e = None \<Longrightarrow> last_io ys = None"
  by (induction ys) auto

lemma set_log_silent: "e \<in> set (snd (Settings_set s d)) \<Longrightarrow> io_bytes e = None"
  by (auto simp: Settings_set_def Let_def split: option.splits if_splits)

lemma last_io_set_log [simp]: "last_io (snd (Settings_set s d)) = None"
  by (rule last_io_silent) (simp add: set_log_silent)

lemma s_hash_set [simp]: "s_hash (fst (Settings_set s d)) = s_hash s"
  by (simp add: Settings_set_def Let_def split: option.splits)

lemma savedData_profile [simp]: "profile (savedData s) = Some (s_profile s)"
  by (simp add: savedData_def emptyData_def)

lemma Settings_save_Some:
  "settingsInstance w = Some s \<Longrightarrow>
   Settings_save X w =
     (Inr (), emit [FsWrite (yaml_stringify X (savedData s))]
        (w\<lparr>settingsInstance := Some (s\<lparr>s_hash := sha1_hex X (yaml_stringify X (savedData s))\<rparr>),
           settingsFile := Some (yaml_stringify X (savedData s))\<rparr>))"
  by (simp add: Settings_save_def Let_def)

lemma no_keys_noHooks: "Hooks_keys h = [] \<Longrightarrow> h = noHooks"
  by (cases h) (auto simp: Hooks_keys_def noHooks_def split: option.splits)

lemma set_savedData:
  "fst (Settings_set this (savedData s)) =
     this\<lparr>s_hooks := s_hooks s, s_hostname := s_hostname s, s_profile := s_profile s,
          s_repository := s_repository s\<rparr>"
  by (cases "s_hostname s")
    (auto simp: Settings_set_def savedData_def emptyData_def Let_def orEmpty_def
      dest: no_keys_noHooks)

lemma Settings_reload_changed:
  assumes "settingsInstance w = Some s"
    and "s_hash s \<noteq> sha1_hex X (orEmpty (settingsFile w))"
    and "(if truthy (settingsFile w) then parseOrEmpty X (orEmpty (settingsFile w))
          else Some defaults) = Some d"
  shows "Settings_reload X w =
     (Inr True,
      emit (snd (Settings_set s d))
        (emit [readEvent (settingsFile w)] w
           \<lparr>settingsInstance :=
              Some (fst (Settings_set s d)\<lparr>s_hash := sha1_hex X (orEmpty (settingsFile w))\<rparr>)\<rparr>))"
  using assms
  by (simp add: Settings_reload_def Let_def split_beta)

lemma reload_keeps_new_settings:
  assumes "Settings_reload X w = (Inr True, w1)"
  shows "settingsInstance (snd (RepositoryFactory_reload X w)) = settingsInstance w1"
proof (cases "settingsInstance w")
  case None
  with assms show ?thesis by (simp add: Settings_reload_def)
next
  case (Some s)
  show ?thesis
  proof (cases "repositoryInstance w1")
    case None
    with Some assms show ?thesis
      by (simp add: RepositoryFactory_reload_def Settings_get_def)
  next
    case (Some old)
    have "settingsInstance w2 = settingsInstance w1"
      if "create X s2 (emit [Terminated old] w1) = (r, w2)" for s2 r w2
      using create_settingsInstance [of X s2 "emit [Terminated old] w1"] that by simp
    with Some \<open>settingsInstance w = Some s\<close> assms show ?thesis
      by (auto simp: RepositoryFactory_reload_def Settings_get_def instance_terminate_def
          split: option.splits prod.splits sum.splits)
  qed
qed

lemma Settings_reload_initialized:
  "settingsInstance w \<noteq> None \<Longrightarrow> settingsInstance (snd (Settings_reload X w)) \<noteq> None"
  by (auto simp: Settings_reload_def Let_def split_beta split: option.splits)

lemma consistent_preserved:
  assumes "consistent w"
  shows "consistent (snd (RepositoryFactory_get X w))"
    and "consistent (snd (RepositoryFactory_reload X w))"
    and "consistent (snd (RepositoryFactory_reset X w))"
    and "consistent (snd (RepositoryFactory_setProfile X p w))"
    and "consistent (snd (Settings_load X ctx w))"
proof -
  show "consistent (snd (RepositoryFactory_get X w))"
    using assms
    by (auto simp: consistent_def RepositoryFactory_get_def Settings_get_def split_beta
        split: option.splits sum.splits)
  show "consistent (snd (RepositoryFactory_reload X w))"
  proof (cases "settingsInstance w")
    case None
    with assms show ?thesis
      by (simp add: consistent_def RepositoryFactory_reload_def Settings_get_def)
  next
    case (Some s)
    then have "settingsInstance (snd (Settings_reload X w)) \<noteq> None"
      by (simp add: Settings_reload_initialized)
    with Some show ?thesis
      by (auto simp: consistent_def RepositoryFactory_reload_def Settings_get_def split_beta
          instance_terminate_def split: option.splits sum.splits)
  qed
  show "consistent (snd (RepositoryFactory_reset X w))"
    using assms
    by (auto simp: consistent_def RepositoryFactory_reset_def instance_terminate_def
        split: option.splits)
  show "consistent (snd (RepositoryFactory_setProfile X p w))"
    using assms
    by (auto simp: consistent_def RepositoryFactory_setProfile_def instance_setProfile_def
        Settings_get_def Settings_setProfile_def Settings_save_def Let_def
        split: option.splits)
  show "consistent (snd (Settings_load X ctx w))"
    by (auto simp: consistent_def Settings_load_def Settings_save_def Let_def split_beta
        split: option.splits)
qed

lemma hash_in_sync_load:
  assumes "Settings_load X ctx w = (Inr r, w')"
  shows "hash_in_sync X w'"
proof (cases "truthy (settingsFile w)")
  case True
  with assms show ?thesis
    by (auto simp: Settings_load_def Let_def split_beta hash_in_sync_def last_io_append
        readEvent_def truthy_def orEmpty_def split: option.splits)
next
  case False
  show ?thesis
  proof (cases "defaultSettings ctx")
    case (Some ddata)
    with False assms show ?thesis
      by (auto simp: Settings_load_def Let_def split_beta hash_in_sync_def last_io_append
          split: option.splits)
  next
    case None
    with False assms show ?thesis
      by (auto simp: Settings_load_def Let_def split_beta hash_in_sync_def last_io_append
          Settings_save_Some split: option.splits)
  qed
qed

lemma hash_in_sync_save:
  assumes "Settings_save X w = (Inr r, w')"
  shows "hash_in_sync X w'"
  using assms
  by (auto simp: Settings_save_def Let_def hash_in_sync_def last_io_append split: option.splits)

lemma hash_in_sync_reload:
  assumes "Settings_reload X w = (Inr r, w')" and "settingsFile w = Some bytes"
  shows "hash_in_sync X w'"
  using assms
  by (auto simp: Settings_reload_def Let_def split_beta hash_in_sync_def last_io_append
      readEvent_def orEmpty_def split: option.splits if_splits)

lemma reload_missing_file:
  assumes "Settings_reload X w = (Inr r, w')" and "settingsFile w = None"
  shows "map_option s_hash (settingsInstance w') = Some (sha1_hex X []) \<and>
         last_io (events w') = last_io (events w)"
  using assms
  by (auto simp: Settings_reload_def Let_def split_beta last_io_append
      readEvent_def orEmpty_def truthy_def split: option.splits if_splits)

lemma reload_throws:
  assumes "Settings_reload X w = (Inl YamlError, w')"
  shows "settingsInstance w' = settingsInstance w \<and> settingsFile w \<noteq> None \<and>
         last_io (events w') = settingsFile w"
  using assms
  by (auto simp: Settings_reload_def Let_def split_beta last_io_append
      readEvent_def orEmpty_def truthy_def split: option.splits if_splits)

lemma load_throws:
  assumes "Settings_load X ctx w = (Inl e, w')"
  shows "e = YamlError \<and> settingsInstance w' = Some (Settings_new (isWorkspace ctx))"
  using assms
  by (auto simp: Settings_load_def Settings_save_def Let_def split_beta
      split: option.splits if_splits)

lemma load_from_file:
  assumes "settingsFile w = Some bytes" and "bytes \<noteq> []"
    and "yaml_parse X bytes = Parsed d"
  shows "Settings_load X ctx w =
     (Inr (Some (fst (Settings_set (Settings_new (isWorkspace ctx)) d)
                  \<lparr>s_hash := sha1_hex X bytes\<rparr>)),
      emit (snd (Settings_set (Settings_new (isWorkspace ctx)) d))
        (emit [FsRead bytes] (w\<lparr>settingsInstance := Some (Settings_new (isWorkspace ctx))\<rparr>)
           \<lparr>settingsInstance := Some (fst (Settings_set (Settings_new (isWorkspace ctx)) d)
                  \<lparr>s_hash := sha1_hex X bytes\<rparr>)\<rparr>))"
  using assms
  by (simp add: Settings_load_def Let_def truthy_def orEmpty_def parseOrEmpty_def split_beta
      readEvent_def)

lemma reload_from_file:
  assumes "settingsFile w = Some bytes" and "bytes \<noteq> []"
    and "yaml_parse X bytes = Parsed d"
    and "settingsInstance w = Some t" and "s_hash t \<noteq> sha1_hex X bytes"
  shows "Settings_reload X w =
     (Inr True,
      emit (snd (Settings_set t d))
        (emit [FsRead bytes] w
           \<lparr>settingsInstance := Some (fst (Settings_set t d)\<lparr>s_hash := sha1_hex X bytes\<rparr>)\<rparr>))"
  using assms
  by (simp add: Settings_reload_def Let_def truthy_def orEmpty_def parseOrEmpty_def split_beta
      readEvent_def)

lemma constructed_append [simp]: "constructed (xs @ ys) = constructed xs @ constructed ys"
  by (induction xs rule: constructed.induct) auto

lemma constructed_set_log [simp]: "constructed (snd (Settings_set s d)) = []"
  by (simp add: Settings_set_def Let_def split: option.splits)

lemma constructed_readEvent [simp]: "constructed (readEvent data # es) = constructed es"
  by (simp add: readEvent_def split: option.splits)

lemma Settings_save_frame:
  "repositoryInstance (snd (Settings_save X w)) = repositoryInstance w \<and>
   constructed (events (snd (Settings_save X w))) = constructed (events w)"
  by (simp add: Settings_save_def Let_def split: option.splits)

lemma Settings_setProfile_frame:
  "repositoryInstance (snd (Settings_setProfile X p w)) = repositoryInstance w \<and>
   constructed (events (snd (Settings_setProfile X p w))) = constructed (events w)"
  by (simp add: Settings_setProfile_def Settings_save_def Let_def split: option.splits)

lemma Settings_reload_frame:
  "repositoryInstance (snd (Settings_reload X w)) = repositoryInstance w \<and>
   constructed (events (snd (Settings_reload X w))) = constructed (events w)"
  by (simp add: Settings_reload_def Let_def split_beta split: option.splits)

lemma Settings_load_frame:
  "repositoryInstance (snd (Settings_load X ctx w)) = repositoryInstance w \<and>
   constructed (events (snd (Settings_load X ctx w))) = constructed (events w)"
  by (simp add: Settings_load_def Settings_save_def Let_def split_beta split: option.splits)

lemma RepositoryFactory_setProfile_frame:
  "repositoryInstance (snd (RepositoryFactory_setProfile X p w)) = repositoryInstance w \<and>
   constructed (events (snd (RepositoryFactory_setProfile X p w))) = constructed (events w)"
  using Settings_setProfile_frame [of X p "emit [BackendSetProfile i p] w" for i]
    Settings_setProfile_frame [of X p w]
  by (auto simp: RepositoryFactory_setProfile_def instance_setProfile_def Settings_get_def
      split: option.splits sum.splits)

lemma RepositoryFactory_reload_frame:
  assumes "fst (Settings_reload X w) \<noteq> Inr True"
  shows "repositoryInstance (snd (RepositoryFactory_reload X w)) = repositoryInstance w \<and>
     constructed (events (snd (RepositoryFactory_reload X w))) = constructed (events w)"
proof (cases "Settings_reload X w")
  case (Pair r w1)
  with assms have "r \<noteq> Inr True" by simp
  moreover from Pair Settings_reload_frame [of X w]
  have "repositoryInstance w1 = repositoryInstance w"
    "constructed (events w1) = constructed (events w)" by simp_all
  ultimately show ?thesis using Pair
    by (cases r) (auto simp: RepositoryFactory_reload_def Settings_get_def split: option.splits)
qed

lemma perform_frame:
  assumes "repositoryInstance w = Some i" and "keepsInstance X c w"
  shows "repositoryInstance (perform X c w) = Some i \<and>
         constructed (events (perform X c w)) = constructed (events w)"
proof (cases c)
  case Get
  with assms show ?thesis by (simp add: RepositoryFactory_get_def)
next
  case (SetProfile p)
  with assms show ?thesis by (simp add: RepositoryFactory_setProfile_frame)
next
  case Reload
  with assms show ?thesis by (simp add: RepositoryFactory_reload_frame)
next
  case Reset
  with assms show ?thesis by simp
next
  case (StoreLoad ctx)
  with assms show ?thesis by (simp add: Settings_load_frame)
next
  case StoreSave
  with assms show ?thesis by (simp add: Settings_save_frame)
next
  case (StoreSetProfile p)
  with assms show ?thesis by (simp add: Settings_setProfile_frame)
next
  case StoreReload
  with assms show ?thesis by (simp add: Settings_reload_frame)
next
  case (Edit f)
  with assms show ?thesis by simp
qed

lemma performAll_frame:
  "repositoryInstance w = Some i \<Longrightarrow> undisturbed X cs w \<Longrightarrow>
   repositoryInstance (performAll X cs w) = Some i \<and>
   constructed (events (performAll X cs w)) = constructed (events w)"
proof (induction cs arbitrary: w)
  case Nil
  then show ?case by simp
next
  case (Cons c cs)
  from Cons.prems have k: "keepsInstance X c w" and u: "undisturbed X cs (perform X c w)"
    by simp_all
  from perform_frame [OF Cons.prems(1) k]
  have p: "repositoryInstance (perform X c w) = Some i"
    and q: "constructed (events (perform X c w)) = constructed (events w)" by simp_all
  from Cons.IH [OF p u] q show ?case by simp
qed

section \<open>Claim C1\<close>

text \<open>
  Claim C1. With a live backend instance \<open>i\<close> and initialised settings \<open>s\<close>,
  \<open>RepositoryFactory.setProfile(p)\<close> first calls \<open>i.setProfile(p)\<close>. When that call
  rejects, the operation fails with the backend's error and neither the settings file nor
  the settings object changes; when it resolves, the settings are printed with
  \<open>profile = p\<close> and written, after the backend call. So the trace gains a write exactly
  when the backend call resolved, and the backend call always comes first.
\<close>

theorem setProfile_backend_first:
  assumes "repositoryInstance w = Some i" and "settingsInstance w = Some s"
    and "bytes = yaml_stringify X (savedData (s\<lparr>s_profile := p\<rparr>))"
  shows "case RepositoryFactory_setProfile X p w of (r, w') \<Rightarrow>
     (if setProfile_resolves X i p
      then r = Inr () \<and>
           profile (savedData (s\<lparr>s_profile := p\<rparr>)) = Some p \<and>
           settingsFile w' = Some bytes \<and>
           settingsInstance w' = Some (s\<lparr>s_profile := p, s_hash := sha1_hex X bytes\<rparr>) \<and>
           events w' = events w @ [BackendSetProfile i p, FsWrite bytes]
      else r = Inl BackendError \<and>
           settingsFile w' = settingsFile w \<and>
           settingsInstance w' = settingsInstance w \<and>
           events w' = events w @ [BackendSetProfile i p])"
  using assms
  by (simp add: RepositoryFactory_setProfile_def instance_setProfile_def Settings_get_def
      Settings_setProfile_def Settings_save_Some)

text \<open>
  C1 on a file backend: the profile \<open>broken\<close> is rejected and the file keeps the
  \<open>main\<close> document; the profile \<open>work\<close> is accepted and the file holds the
  \<open>work\<close> document.
\<close>

theorem setProfile_backend_first_witness:
  "repositoryInstance (demoWorld demoMain (Some demoLive) (Some (demoStringify demoMain)))
     = Some demoLive \<and>
   settingsInstance (demoWorld demoMain (Some demoLive) (Some (demoStringify demoMain)))
     = Some (demoSettings demoMain) \<and>
   \<not> setProfile_resolves demoExternals demoLive ''broken'' \<and>
   fst (RepositoryFactory_setProfile demoExternals ''broken''
          (demoWorld demoMain (Some demoLive) (Some (demoStringify demoMain))))
     = Inl BackendError \<and>
   settingsFile (snd (RepositoryFactory_setProfile demoExternals ''broken''
          (demoWorld demoMain (Some demoLive) (Some (demoStringify demoMain)))))
     = Some (demoStringify demoMain) \<and>
   setProfile_resolves demoExternals demoLive ''work'' \<and>
   settingsFile (snd (RepositoryFactory_setProfile demoExternals ''work''
          (demoWorld demoMain (Some demoLive) (Some (demoStringify demoMain)))))
     = Some (demoStringify demoWork)"
proof -
  let ?W = "demoWorld demoMain (Some demoLive) (Some (demoStringify demoMain))"
  have h1: "repositoryInstance ?W = Some demoLive" by (simp add: demoWorld_def)
  have h2: "settingsInstance ?W = Some (demoSettings demoMain)" by (simp add: demoWorld_def)
  show ?thesis
    using h1 h2 setProfile_backend_first [OF h1 h2 refl, where X = demoExternals and p = "''broken''"]
      setProfile_backend_first [OF h1 h2 refl, where X = demoExternals and p = "''work''"]
    by (simp add: demo_defs model_defs)
qed

section \<open>Claim C2\<close>

text \<open>
  Claim C2. With no live instance and initialised settings, \<open>RepositoryFactory.get()\<close>
  fails with the mysterious-type error exactly when \<open>repository.type\<close> is none of
  \<open>DUMMY\<close>, \<open>FILE\<close>, \<open>GIT\<close>, \<open>RSYNC\<close>, or it is \<open>GIT\<close> and neither
  \<open>path\<close> nor \<open>url\<close> is set, where a field is set when it holds a non-empty string
  (the test \<open>create\<close> makes). For each type of the enumeration it otherwise installs an
  instance of the matching class.
\<close>

theorem get_mysterious_type:
  assumes "repositoryInstance w = None" and "settingsInstance w = Some s"
  shows "case RepositoryFactory_get X w of (r, w') \<Rightarrow>
     ((\<exists>t. r = Inl (MysteriousType t)) \<longleftrightarrow>
        type (s_repository s) \<notin> {DUMMY, FILE, GIT, RSYNC} \<or>
        type (s_repository s) = GIT \<and> \<not> truthy (path (s_repository s))
          \<and> \<not> truthy (url (s_repository s))) \<and>
     (type (s_repository s) = DUMMY \<longrightarrow>
        repositoryInstance w' = Some \<lparr>ident = allocated w, variant = DummyRepository\<rparr>) \<and>
     (type (s_repository s) = FILE \<longrightarrow>
        repositoryInstance w' = Some \<lparr>ident = allocated w, variant = FileRepository\<rparr>) \<and>
     (type (s_repository s) = GIT \<and> truthy (path (s_repository s)) \<longrightarrow>
        repositoryInstance w' = Some \<lparr>ident = allocated w, variant = LocalGitRepository\<rparr>) \<and>
     (type (s_repository s) = GIT \<and> \<not> truthy (path (s_repository s))
          \<and> truthy (url (s_repository s)) \<longrightarrow>
        repositoryInstance w' = Some \<lparr>ident = allocated w, variant = RemoteGitRepository\<rparr>) \<and>
     (type (s_repository s) = RSYNC \<longrightarrow>
        repositoryInstance w' = Some \<lparr>ident = allocated w, variant = RsyncRepository\<rparr>)"
  using assms
  by (auto simp: RepositoryFactory_get_def Settings_get_def create_def instance_setProfile_def
      Let_def split: option.splits)

text \<open>
  C2 on a git document without \<open>path\<close> and \<open>url\<close> (the error), and on a file
  document (a \<open>FileRepository\<close>).
\<close>

theorem get_mysterious_type_witness:
  "repositoryInstance (demoWorld demoGitNeither None None) = None \<and>
   settingsInstance (demoWorld demoGitNeither None None) = Some (demoSettings demoGitNeither) \<and>
   type (s_repository (demoSettings demoGitNeither)) = GIT \<and>
   path (s_repository (demoSettings demoGitNeither)) = None \<and>
   url (s_repository (demoSettings demoGitNeither)) = None \<and>
   fst (RepositoryFactory_get demoExternals (demoWorld demoGitNeither None None))
     = Inl (MysteriousType GIT) \<and>
   repositoryInstance (snd (RepositoryFactory_get demoExternals (demoWorld demoMain None None)))
     = Some \<lparr>ident = 0, variant = FileRepository\<rparr>"
proof -
  have h1: "repositoryInstance (demoWorld d None None) = None" for d
    by (simp add: demoWorld_def)
  have h2: "settingsInstance (demoWorld d None None) = Some (demoSettings d)" for d
    by (simp add: demoWorld_def)
  show ?thesis
    using h1 h2
      get_mysterious_type [OF h1 [of demoGitNeither] h2 [of demoGitNeither],
        where X = demoExternals]
      get_mysterious_type [OF h1 [of demoMain] h2 [of demoMain], where X = demoExternals]
    by (simp add: demo_defs model_defs)
qed

section \<open>Claim C3\<close>

text \<open>
  Claim C3 says that a git document with both \<open>path\<close> and \<open>url\<close> set matches
  neither branch and is rejected with the mysterious-type error. It is not: \<open>path\<close> is
  tested first, and \<open>get()\<close> returns a \<open>LocalGitRepository\<close>.
\<close>

theorem git_both_counterexample:
  "type (s_repository (demoSettings demoGitBoth)) = GIT \<and>
   path (s_repository (demoSettings demoGitBoth)) = Some ''/sync'' \<and>
   url (s_repository (demoSettings demoGitBoth)) = Some ''https://example.org/sync.git'' \<and>
   RepositoryFactory_get demoExternals (demoWorld demoGitBoth None None)
     \<noteq> (Inl (MysteriousType GIT), demoWorld demoGitBoth None None) \<and>
   fst (RepositoryFactory_get demoExternals (demoWorld demoGitBoth None None))
     = Inr (Some \<lparr>ident = 0, variant = LocalGitRepository\<rparr>)"
  by (simp add: demo_defs model_defs)

text \<open>
  Claim C3, amended. For every git document in which both \<open>path\<close> and \<open>url\<close> are
  non-empty, \<open>create\<close> takes the \<open>path\<close> branch: \<open>get()\<close> installs a
  \<open>LocalGitRepository\<close>, never fails with the mysterious-type error, and returns that
  instance when the instance accepts the profile.
\<close>

theorem git_both_selects_local:
  assumes "repositoryInstance w = None" and "settingsInstance w = Some s"
    and "type (s_repository s) = GIT"
    and "truthy (path (s_repository s))" and "truthy (url (s_repository s))"
  shows "repositoryInstance (snd (RepositoryFactory_get X w))
           = Some \<lparr>ident = allocated w, variant = LocalGitRepository\<rparr> \<and>
         (\<forall>t. fst (RepositoryFactory_get X w) \<noteq> Inl (MysteriousType t)) \<and>
         (setProfile_resolves X \<lparr>ident = allocated w, variant = LocalGitRepository\<rparr> (s_profile s)
            \<longrightarrow> fst (RepositoryFactory_get X w)
                  = Inr (Some \<lparr>ident = allocated w, variant = LocalGitRepository\<rparr>))"
  using assms
  by (auto simp: RepositoryFactory_get_def Settings_get_def create_def instance_setProfile_def
      Let_def split: option.splits)

text \<open>
  The amended C3 on the document with \<open>path = /sync\<close> and a \<open>url\<close>.
\<close>

theorem git_both_selects_local_witness:
  "repositoryInstance (demoWorld demoGitBoth None None) = None \<and>
   settingsInstance (demoWorld demoGitBoth None None) = Some (demoSettings demoGitBoth) \<and>
   type (s_repository (demoSettings demoGitBoth)) = GIT \<and>
   truthy (path (s_repository (demoSettings demoGitBoth))) \<and>
   truthy (url (s_repository (demoSettings demoGitBoth))) \<and>
   repositoryInstance (snd (RepositoryFactory_get demoExternals (demoWorld demoGitBoth None None)))
     = Some \<lparr>ident = 0, variant = LocalGitRepository\<rparr>"
proof -
  have h1: "repositoryInstance (demoWorld demoGitBoth None None) = None"
    by (simp add: demoWorld_def)
  have h2: "settingsInstance (demoWorld demoGitBoth None None) = Some (demoSettings demoGitBoth)"
    by (simp add: demoWorld_def)
  have h3: "type (s_repository (demoSettings demoGitBoth)) = GIT"
    by (simp add: demo_defs)
  have h4: "truthy (path (s_repository (demoSettings demoGitBoth)))"
    by (simp add: demo_defs)
  have h5: "truthy (url (s_repository (demoSettings demoGitBoth)))"
    by (simp add: demo_defs)
  show ?thesis
    using h1 h2 h3 h4 h5 git_both_selects_local [OF h1 h2 h3 h4 h5, where X = demoExternals]
    by (simp add: demo_defs model_defs)
qed

section \<open>Claim C4\<close>

text \<open>
  Claim C4. When the bytes of the settings file (the empty string when the file does not
  exist) have the digest the settings object holds, \<open>RepositoryFactory.reload()\<close> returns
  \<open>false\<close>; the live instance, the settings object, the file and the allocation counter
  are as before, and the only event is the read of the file: nothing is terminated and
  nothing is constructed.
\<close>

theorem reload_unchanged_is_noop:
  assumes "settingsInstance w = Some s"
    and "s_hash s = sha1_hex X (orEmpty (settingsFile w))"
  shows "case RepositoryFactory_reload X w of (r, w') \<Rightarrow>
     r = Inr False \<and>
     repositoryInstance w' = repositoryInstance w \<and>
     settingsInstance w' = settingsInstance w \<and>
     settingsFile w' = settingsFile w \<and>
     allocated w' = allocated w \<and>
     events w' = events w @ [readEvent (settingsFile w)]"
  using assms
  by (simp add: RepositoryFactory_reload_def Settings_get_def Settings_reload_def Let_def)

text \<open>
  C4 on a world whose file is the document in memory, with a live file backend.
\<close>

theorem reload_unchanged_is_noop_witness:
  "settingsInstance (demoWorld demoMain (Some demoLive) (Some (demoStringify demoMain)))
     = Some (demoSettings demoMain) \<and>
   s_hash (demoSettings demoMain) = sha1_hex demoExternals (orEmpty
     (settingsFile (demoWorld demoMain (Some demoLive) (Some (demoStringify demoMain))))) \<and>
   RepositoryFactory_reload demoExternals
       (demoWorld demoMain (Some demoLive) (Some (demoStringify demoMain)))
     = (Inr False,
        demoWorld demoMain (Some demoLive) (Some (demoStringify demoMain))
          \<lparr>events := [FsRead (demoStringify demoMain)]\<rparr>)"
proof -
  let ?W = "demoWorld demoMain (Some demoLive) (Some (demoStringify demoMain))"
  have h1: "settingsInstance ?W = Some (demoSettings demoMain)"
    by (simp add: demoWorld_def)
  have h2: "s_hash (demoSettings demoMain) = sha1_hex demoExternals (orEmpty (settingsFile ?W))"
    by (simp add: demo_defs)
  show ?thesis
    using h1 h2 reload_unchanged_is_noop [OF h1 h2]
    by (simp add: demo_defs model_defs)
qed

section \<open>Claim C5\<close>

text \<open>
  Claim C5 says that \<open>reload()\<close> returns \<open>true\<close> whenever the digest differs, with one
  \<open>terminate()\<close> and one construction when an instance is live. Here the file was changed
  to a git document without \<open>path\<close> and \<open>url\<close> while a file backend is live: the old
  instance is terminated, nothing is constructed, and \<open>reload()\<close> fails with the
  mysterious-type error instead of returning \<open>true\<close>.
\<close>

theorem reload_changed_counterexample:
  "s_hash (demoSettings demoMain) \<noteq> sha1_hex demoExternals (orEmpty
     (settingsFile (demoWorld demoMain (Some demoLive) (Some (demoStringify demoGitNeither))))) \<and>
   repositoryInstance (demoWorld demoMain (Some demoLive) (Some (demoStringify demoGitNeither)))
     = Some demoLive \<and>
   fst (RepositoryFactory_reload demoExternals
          (demoWorld demoMain (Some demoLive) (Some (demoStringify demoGitNeither))))
     = Inl (MysteriousType GIT) \<and>
   events (snd (RepositoryFactory_reload demoExternals
          (demoWorld demoMain (Some demoLive) (Some (demoStringify demoGitNeither)))))
     = [FsRead (demoStringify demoGitNeither), InfoRepository (repository demoGitNeither),
        InfoProfile ''main'', InfoHostname ''laptop'', Terminated demoLive]"
  by (simp add: demo_defs model_defs)

text \<open>
  Claim C5, amended. When the digest differs and the document parses, the settings object
  is replaced by the fields of the new document. With no live instance, \<open>reload()\<close>
  returns \<open>true\<close> and constructs nothing. With a live instance whose \<open>terminate()\<close>
  resolves: if the new document selects a class and the new instance accepts the new
  profile, \<open>reload()\<close> returns \<open>true\<close> after exactly one \<open>terminate()\<close> of the old
  instance followed by exactly one construction and its \<open>setProfile\<close>; if the new
  document selects no class, \<open>reload()\<close> fails with the mysterious-type error after the
  \<open>terminate()\<close>, with nothing constructed and no instance cached.
\<close>

theorem reload_changed:
  assumes "settingsInstance w = Some s"
    and "s_hash s \<noteq> sha1_hex X (orEmpty (settingsFile w))"
    and "(if truthy (settingsFile w) then parseOrEmpty X (orEmpty (settingsFile w))
          else Some defaults) = Some d"
    and "s' = fst (Settings_set s d)\<lparr>s_hash := sha1_hex X (orEmpty (settingsFile w))\<rparr>"
  shows "case RepositoryFactory_reload X w of (r, w') \<Rightarrow>
     settingsInstance w' = Some s' \<and>
     (repositoryInstance w = None \<longrightarrow>
        r = Inr True \<and> repositoryInstance w' = None \<and> allocated w' = allocated w \<and>
        events w' = events w @ [readEvent (settingsFile w)] @ snd (Settings_set s d)) \<and>
     (\<forall>old c. repositoryInstance w = Some old \<and> terminate_resolves X old \<and>
          selects (s_repository s') c \<and>
          setProfile_resolves X \<lparr>ident = allocated w, variant = c\<rparr> (s_profile s') \<longrightarrow>
        r = Inr True \<and>
        repositoryInstance w' = Some \<lparr>ident = allocated w, variant = c\<rparr> \<and>
        events w' = events w @ [readEvent (settingsFile w)] @ snd (Settings_set s d) @
          [Terminated old, Constructed \<lparr>ident = allocated w, variant = c\<rparr>,
           BackendSetProfile \<lparr>ident = allocated w, variant = c\<rparr> (s_profile s')]) \<and>
     (\<forall>old. repositoryInstance w = Some old \<and> terminate_resolves X old \<and>
          (\<forall>c. \<not> selects (s_repository s') c) \<longrightarrow>
        r = Inl (MysteriousType (type (s_repository s'))) \<and>
        repositoryInstance w' = None \<and>
        events w' = events w @ [readEvent (settingsFile w)] @ snd (Settings_set s d) @
          [Terminated old])"
proof -
  note sr = Settings_reload_changed [OF assms(1-3)]
  have a: "settingsInstance (snd (RepositoryFactory_reload X w)) = Some s'"
    using reload_keeps_new_settings [OF sr] assms(4) by simp
  have b: "repositoryInstance w = None \<Longrightarrow>
      RepositoryFactory_reload X w = (Inr True,
        emit (snd (Settings_set s d))
          (emit [readEvent (settingsFile w)] w\<lparr>settingsInstance := Some s'\<rparr>))"
    using assms(1,4) by (simp add: RepositoryFactory_reload_def Settings_get_def sr)
  have c: "fst (RepositoryFactory_reload X w) = Inr True \<and>
      repositoryInstance (snd (RepositoryFactory_reload X w))
        = Some \<lparr>ident = allocated w, variant = c\<rparr> \<and>
      events (snd (RepositoryFactory_reload X w))
        = events w @ [readEvent (settingsFile w)] @ snd (Settings_set s d) @
          [Terminated old, Constructed \<lparr>ident = allocated w, variant = c\<rparr>,
           BackendSetProfile \<lparr>ident = allocated w, variant = c\<rparr> (s_profile s')]"
    if "repositoryInstance w = Some old" "terminate_resolves X old"
      "selects (s_repository s') c"
      "setProfile_resolves X \<lparr>ident = allocated w, variant = c\<rparr> (s_profile s')"
    for old c
    using that assms(1,4)
    by (simp add: RepositoryFactory_reload_def Settings_get_def sr
        instance_terminate_def create_selects instance_setProfile_def)
  have m: "RepositoryFactory_reload X w =
      (Inl (MysteriousType (type (s_repository s'))),
       emit [Terminated old]
         (emit (snd (Settings_set s d))
            (emit [readEvent (settingsFile w)] w\<lparr>settingsInstance := Some s'\<rparr>))
         \<lparr>repositoryInstance := None\<rparr>)"
    if "repositoryInstance w = Some old" "terminate_resolves X old"
      "\<forall>c. \<not> selects (s_repository s') c"
    for old
    using that assms(1,4)
    by (simp add: RepositoryFactory_reload_def Settings_get_def sr
        instance_terminate_def create_mysterious)
  show ?thesis
    using a b c m by (auto simp: split_beta)
qed

text \<open>
  The amended C5: the file was changed to a git document while a file backend is live
  (one \<open>terminate\<close>, then one \<open>LocalGitRepository\<close>), and the same change with no live
  instance (\<open>true\<close>, nothing constructed).
\<close>

theorem reload_changed_witness:
  "settingsInstance (demoWorld demoMain (Some demoLive) (Some (demoStringify demoGitBoth)))
     = Some (demoSettings demoMain) \<and>
   s_hash (demoSettings demoMain) \<noteq> sha1_hex demoExternals (orEmpty
     (settingsFile (demoWorld demoMain (Some demoLive) (Some (demoStringify demoGitBoth))))) \<and>
   parseOrEmpty demoExternals (demoStringify demoGitBoth) = Some demoGitBoth \<and>
   terminate_resolves demoExternals demoLive \<and>
   selects (s_repository (demoSettings demoGitBoth)) LocalGitRepository \<and>
   setProfile_resolves demoExternals \<lparr>ident = 1, variant = LocalGitRepository\<rparr> ''main'' \<and>
   fst (RepositoryFactory_reload demoExternals
          (demoWorld demoMain (Some demoLive) (Some (demoStringify demoGitBoth))))
     = Inr True \<and>
   events (snd (RepositoryFactory_reload demoExternals
          (demoWorld demoMain (Some demoLive) (Some (demoStringify demoGitBoth)))))
     = [FsRead (demoStringify demoGitBoth), InfoRepository (repository demoGitBoth),
        InfoProfile ''main'', InfoHostname ''laptop'', Terminated demoLive,
        Constructed \<lparr>ident = 1, variant = LocalGitRepository\<rparr>,
        BackendSetProfile \<lparr>ident = 1, variant = LocalGitRepository\<rparr> ''main''] \<and>
   fst (RepositoryFactory_reload demoExternals
          (demoWorld demoMain None (Some (demoStringify demoGitBoth))))
     = Inr True \<and>
   repositoryInstance (snd (RepositoryFactory_reload demoExternals
          (demoWorld demoMain None (Some (demoStringify demoGitBoth)))))
     = None"
proof -
  let ?W = "demoWorld demoMain (Some demoLive) (Some (demoStringify demoGitBoth))"
  let ?V = "demoWorld demoMain None (Some (demoStringify demoGitBoth))"
  have h1: "settingsInstance ?W = Some (demoSettings demoMain)"
    and g1: "settingsInstance ?V = Some (demoSettings demoMain)"
    by (simp_all add: demoWorld_def)
  have h2: "s_hash (demoSettings demoMain) \<noteq> sha1_hex demoExternals (orEmpty (settingsFile ?W))"
    and g2: "s_hash (demoSettings demoMain) \<noteq> sha1_hex demoExternals (orEmpty (settingsFile ?V))"
    by (simp_all add: demo_defs)
  have h3: "(if truthy (settingsFile ?W)
             then parseOrEmpty demoExternals (orEmpty (settingsFile ?W))
             else Some defaults) = Some demoGitBoth"
    and g3: "(if truthy (settingsFile ?V)
             then parseOrEmpty demoExternals (orEmpty (settingsFile ?V))
             else Some defaults) = Some demoGitBoth"
    by (simp_all add: demo_defs model_defs)
  show ?thesis
    using h1 h2 h3 reload_changed [OF h1 h2 h3 refl] reload_changed [OF g1 g2 g3 refl]
    by (simp add: demo_defs model_defs selects_def)
qed

section \<open>Claim C6\<close>




section \<open>Claim C7\<close>

text \<open>
  Claim C7. With no live instance, for settings that select a class \<open>c\<close> (none, file,
  local git, remote git or rsync), \<open>get()\<close> constructs exactly one instance \<open>i\<close>, of
  class \<open>c\<close>, calls its \<open>setProfile\<close> and caches it; it returns the instance unless that
  \<open>setProfile\<close> rejects. A second \<open>get()\<close> returns the very same instance and changes
  nothing. The same holds after any sequence of intervening calls (\<open>get\<close>,
  \<open>setProfile\<close>, \<open>reload\<close>, the methods of the settings store, edits of the file) that
  contains no \<open>reset()\<close> and no \<open>reload()\<close> that finds a change: the cached instance is
  still \<open>i\<close>, \<open>get()\<close> returns it leaving the world as it is, and \<open>i\<close> is the only
  instance constructed since the start.
\<close>

theorem get_constructs_once_and_caches:
  assumes "repositoryInstance w = None" and "settingsInstance w = Some s"
    and "selects (s_repository s) c"
    and "i = \<lparr>ident = allocated w, variant = c\<rparr>"
    and "w1 = snd (RepositoryFactory_get X w)"
    and "undisturbed X cs w1"
    and "w2 = performAll X cs w1"
  shows "repositoryInstance w1 = Some i \<and>
     events w1 = events w @ [Constructed i, BackendSetProfile i (s_profile s)] \<and>
     fst (RepositoryFactory_get X w)
       = (if setProfile_resolves X i (s_profile s) then Inr (Some i) else Inl BackendError) \<and>
     RepositoryFactory_get X w1 = (Inr (Some i), w1) \<and>
     repositoryInstance w2 = Some i \<and>
     RepositoryFactory_get X w2 = (Inr (Some i), w2) \<and>
     constructed (events w2) = constructed (events w) @ [i]"
proof -
  have a: "repositoryInstance w1 = Some i"
    and b: "events w1 = events w @ [Constructed i, BackendSetProfile i (s_profile s)]"
    and c: "fst (RepositoryFactory_get X w)
       = (if setProfile_resolves X i (s_profile s) then Inr (Some i) else Inl BackendError)"
    using assms(1-5)
    by (simp_all add: RepositoryFactory_get_def Settings_get_def create_selects
        instance_setProfile_def)
  from performAll_frame [OF a assms(6)] assms(7)
  have d: "repositoryInstance w2 = Some i"
    and e: "constructed (events w2) = constructed (events w1)" by simp_all
  have f: "RepositoryFactory_get X w' = (Inr (Some i), w')" if "repositoryInstance w' = Some i"
    for w' using that by (simp add: RepositoryFactory_get_def)
  from a b d e f show ?thesis using c by simp
qed

text \<open>
  C7 on a file document: the first \<open>get()\<close> returns a \<open>FileRepository\<close>; after a
  \<open>setProfile\<close>, a \<open>reload()\<close> without change and another \<open>get()\<close>, \<open>get()\<close> returns
  it again and it is the only instance constructed.
\<close>

theorem get_constructs_once_and_caches_witness:
  "repositoryInstance (demoWorld demoMain None None) = None \<and>
   settingsInstance (demoWorld demoMain None None) = Some (demoSettings demoMain) \<and>
   selects (s_repository (demoSettings demoMain)) FileRepository \<and>
   undisturbed demoExternals [SetProfile ''work'', Reload, Get]
     (snd (RepositoryFactory_get demoExternals (demoWorld demoMain None None))) \<and>
   fst (RepositoryFactory_get demoExternals (demoWorld demoMain None None))
     = Inr (Some demoLive) \<and>
   fst (RepositoryFactory_get demoExternals
       (performAll demoExternals [SetProfile ''work'', Reload, Get]
          (snd (RepositoryFactory_get demoExternals (demoWorld demoMain None None)))))
     = Inr (Some demoLive) \<and>
   constructed (events
       (performAll demoExternals [SetProfile ''work'', Reload, Get]
          (snd (RepositoryFactory_get demoExternals (demoWorld demoMain None None)))))
     = [demoLive]"
proof -
  let ?W = "demoWorld demoMain None None"
  let ?W1 = "snd (RepositoryFactory_get demoExternals ?W)"
  let ?cs = "[SetProfile ''work'', Reload, Get]"
  have h1: "repositoryInstance ?W = None"
    by (simp add: demoWorld_def)
  have h2: "settingsInstance ?W = Some (demoSettings demoMain)"
    by (simp add: demoWorld_def)
  have h3: "selects (s_repository (demoSettings demoMain)) FileRepository"
    by (simp add: demo_defs selects_def)
  have h4: "demoLive = \<lparr>ident = allocated ?W, variant = FileRepository\<rparr>"
    by (simp add: demo_defs)
  have h5: "undisturbed demoExternals ?cs ?W1"
    by (simp add: demo_defs model_defs)
  have e: "events ?W = []"
    by (simp add: demoWorld_def)
  have r: "setProfile_resolves demoExternals demoLive (s_profile (demoSettings demoMain))"
    by (simp add: demo_defs)
  from get_constructs_once_and_caches [OF h1 h2 h3 h4 refl h5 refl]
  show ?thesis
    using h1 h2 h3 h5 e r by simp
qed

section \<open>Claim C8\<close>

text \<open>
  Claim C8. Provided the parser reads the printed document back (and the print is not
  empty), \<open>save()\<close> writes bytes from which the fields are recovered whatever the memory
  holds: \<open>load()\<close> in any world with that file yields a settings object whose \<open>hooks\<close>,
  \<open>hostname\<close>, \<open>profile\<close> and \<open>repository\<close> equal those before the \<open>save()\<close>, and so
  does \<open>reload()\<close> on any settings object whose hash is not that of the file. In the
  saving process itself \<open>reload()\<close> returns \<open>false\<close> and the four fields stay.
\<close>

theorem save_load_roundtrip:
  assumes "settingsInstance w = Some s"
    and "bytes = yaml_stringify X (savedData s)"
    and "yaml_parse X bytes = Parsed (savedData s)"
    and "bytes \<noteq> []"
  shows "fst (Settings_save X w) = Inr () \<and>
     settingsFile (snd (Settings_save X w)) = Some bytes \<and>
     (\<forall>w'. settingsFile w' = Some bytes \<longrightarrow>
        (\<exists>s2 w2. Settings_load X ctx w' = (Inr (Some s2), w2) \<and>
           settingsInstance w2 = Some s2 \<and>
           s_hooks s2 = s_hooks s \<and> s_hostname s2 = s_hostname s \<and>
           s_profile s2 = s_profile s \<and> s_repository s2 = s_repository s)) \<and>
     (\<forall>w' t. settingsFile w' = Some bytes \<and> settingsInstance w' = Some t \<and>
          s_hash t \<noteq> sha1_hex X bytes \<longrightarrow>
        (\<exists>s3 w3. Settings_reload X w' = (Inr True, w3) \<and>
           settingsInstance w3 = Some s3 \<and>
           s_hooks s3 = s_hooks s \<and> s_hostname s3 = s_hostname s \<and>
           s_profile s3 = s_profile s \<and> s_repository s3 = s_repository s)) \<and>
     (\<exists>s4 w4. Settings_reload X (snd (Settings_save X w)) = (Inr False, w4) \<and>
        settingsInstance w4 = Some s4 \<and>
        s_hooks s4 = s_hooks s \<and> s_hostname s4 = s_hostname s \<and>
        s_profile s4 = s_profile s \<and> s_repository s4 = s_repository s)"
proof -
  have a: "fst (Settings_save X w) = Inr ()"
    and b: "settingsFile (snd (Settings_save X w)) = Some bytes"
    using assms(1,2) by (simp_all add: Settings_save_Some)
  have c: "\<exists>s2 w2. Settings_load X ctx w' = (Inr (Some s2), w2) \<and>
           settingsInstance w2 = Some s2 \<and>
           s_hooks s2 = s_hooks s \<and> s_hostname s2 = s_hostname s \<and>
           s_profile s2 = s_profile s \<and> s_repository s2 = s_repository s"
    if "settingsFile w' = Some bytes" for w'
    using load_from_file [OF that assms(4,3)] by (simp add: set_savedData)
  have d: "\<exists>s3 w3. Settings_reload X w' = (Inr True, w3) \<and>
           settingsInstance w3 = Some s3 \<and>
           s_hooks s3 = s_hooks s \<and> s_hostname s3 = s_hostname s \<and>
           s_profile s3 = s_profile s \<and> s_repository s3 = s_repository s"
    if "settingsFile w' = Some bytes" "settingsInstance w' = Some t"
      "s_hash t \<noteq> sha1_hex X bytes" for w' t
    using reload_from_file [OF that(1) assms(4,3) that(2,3)] by (simp add: set_savedData)
  have e: "\<exists>s4 w4. Settings_reload X (snd (Settings_save X w)) = (Inr False, w4) \<and>
        settingsInstance w4 = Some s4 \<and>
        s_hooks s4 = s_hooks s \<and> s_hostname s4 = s_hostname s \<and>
        s_profile s4 = s_profile s \<and> s_repository s4 = s_repository s"
    using assms(1,2)
    by (simp add: Settings_save_Some Settings_reload_def Let_def orEmpty_def)
  from a b c d e show ?thesis by blast
qed

text \<open>
  C8 on the file document: after the \<open>save()\<close>, a \<open>load()\<close> and a \<open>reload()\<close> in a
  world whose memory holds a git document both end with the fields of the file document.
\<close>

theorem save_load_roundtrip_witness:
  "settingsInstance (demoWorld demoMain None None) = Some (demoSettings demoMain) \<and>
   yaml_parse demoExternals (demoStringify demoMain) = Parsed (savedData (demoSettings demoMain)) \<and>
   demoStringify demoMain = yaml_stringify demoExternals (savedData (demoSettings demoMain)) \<and>
   demoStringify demoMain \<noteq> [] \<and>
   settingsFile (snd (Settings_save demoExternals (demoWorld demoMain None None)))
     = Some (demoStringify demoMain) \<and>
   fst (Settings_load demoExternals demoContext (demoWorld demoGitBoth None
          (Some (demoStringify demoMain))))
     = Inr (Some (demoSettings demoMain)) \<and>
   s_hash (demoSettings demoGitBoth) \<noteq> sha1_hex demoExternals (demoStringify demoMain) \<and>
   Settings_reload demoExternals (demoWorld demoGitBoth None (Some (demoStringify demoMain)))
     = (Inr True,
        demoWorld demoMain None (Some (demoStringify demoMain))
          \<lparr>events := [FsRead (demoStringify demoMain), InfoRepository (repository demoMain),
             InfoProfile ''main'', InfoHostname ''laptop'']\<rparr>)"
proof -
  let ?W = "demoWorld demoMain None None"
  let ?V = "demoWorld demoGitBoth None (Some (demoStringify demoMain))"
  let ?S = "demoSettings demoMain"
  have h1: "settingsInstance ?W = Some ?S"
    by (simp add: demoWorld_def)
  have h2: "demoStringify demoMain = yaml_stringify demoExternals (savedData ?S)"
    by (simp add: demo_defs model_defs)
  have h3: "yaml_parse demoExternals (demoStringify demoMain) = Parsed (savedData ?S)"
    by (simp add: demo_defs model_defs)
  have h4: "demoStringify demoMain \<noteq> []"
    by (simp add: demo_defs)
  have v1: "settingsFile ?V = Some (demoStringify demoMain)"
    and v2: "settingsInstance ?V = Some (demoSettings demoGitBoth)"
    by (simp_all add: demoWorld_def)
  have v3: "s_hash (demoSettings demoGitBoth) \<noteq> sha1_hex demoExternals (demoStringify demoMain)"
    by (simp add: demo_defs)
  show ?thesis
    using h1 h2 h3 h4 v3 save_load_roundtrip [OF h1 h2 h3 h4, where ctx = demoContext]
    by (simp add: demo_defs model_defs)
qed

section \<open>Claim C9\<close>

text \<open>
  Claim C9 says the hash never goes stale with respect to the last bytes read or written.
  It does in two ways. A \<open>reload()\<close> on which the parser throws has read the new bytes
  and keeps the old hash. A \<open>reload()\<close> that finds no settings file reads nothing and
  stores the digest of the empty string, while the last bytes moved are those of the
  earlier \<open>save()\<close>.
\<close>

theorem hash_follows_last_io_counterexample:
  "fst (Settings_reload demoExternals (demoWorld demoMain None (Some ''{profile: work'')))
     = Inl YamlError \<and>
   last_io (events (snd (Settings_reload demoExternals
       (demoWorld demoMain None (Some ''{profile: work'')))))
     = Some ''{profile: work'' \<and>
   map_option s_hash (settingsInstance (snd (Settings_reload demoExternals
       (demoWorld demoMain None (Some ''{profile: work'')))))
     = Some (sha1_hex demoExternals (demoStringify demoMain)) \<and>
   sha1_hex demoExternals (demoStringify demoMain) \<noteq> sha1_hex demoExternals ''{profile: work'' \<and>
   fst (Settings_reload demoExternals
       (snd (Settings_save demoExternals (demoWorld demoMain None None))
          \<lparr>settingsFile := None\<rparr>))
     = Inr True \<and>
   last_io (events (snd (Settings_reload demoExternals
       (snd (Settings_save demoExternals (demoWorld demoMain None None))
          \<lparr>settingsFile := None\<rparr>))))
     = Some (demoStringify demoMain) \<and>
   map_option s_hash (settingsInstance (snd (Settings_reload demoExternals
       (snd (Settings_save demoExternals (demoWorld demoMain None None))
          \<lparr>settingsFile := None\<rparr>))))
     = Some (sha1_hex demoExternals []) \<and>
   sha1_hex demoExternals [] \<noteq> sha1_hex demoExternals (demoStringify demoMain)"
  by (simp add: demo_defs model_defs defaults_def)

text \<open>
  Claim C9, amended. After every \<open>load()\<close> and \<open>save()\<close> that returns, and after every
  \<open>reload()\<close> that returns having found a settings file, the hash held by the settings
  object is the digest of the bytes of the last read or write of the trace. A \<open>reload()\<close>
  that returns having found no file has moved no bytes and leaves the digest of the empty
  string. A \<open>reload()\<close> on which the parser throws has read the file and leaves the
  settings object, hash included, as it was; a \<open>load()\<close> fails only when the parser
  throws, and leaves the blank initial object, whose hash is empty.
\<close>

theorem hash_follows_last_io:
  "(\<forall>r w'. Settings_load X ctx w = (Inr r, w') \<longrightarrow> hash_in_sync X w') \<and>
   (\<forall>r w'. Settings_save X w = (Inr r, w') \<longrightarrow> hash_in_sync X w') \<and>
   (\<forall>r w' bytes. Settings_reload X w = (Inr r, w') \<and> settingsFile w = Some bytes
       \<longrightarrow> hash_in_sync X w') \<and>
   (\<forall>r w'. Settings_reload X w = (Inr r, w') \<and> settingsFile w = None
       \<longrightarrow> map_option s_hash (settingsInstance w') = Some (sha1_hex X []) \<and>
          last_io (events w') = last_io (events w)) \<and>
   (\<forall>w'. Settings_reload X w = (Inl YamlError, w')
       \<longrightarrow> settingsInstance w' = settingsInstance w \<and> settingsFile w \<noteq> None \<and>
          last_io (events w') = settingsFile w) \<and>
   (\<forall>e w'. Settings_load X ctx w = (Inl e, w')
       \<longrightarrow> e = YamlError \<and> settingsInstance w' = Some (Settings_new (isWorkspace ctx)))"
proof (intro conjI allI impI)
  fix r w' assume "Settings_load X ctx w = (Inr r, w')"
  then show "hash_in_sync X w'" by (rule hash_in_sync_load)
next
  fix r w' assume "Settings_save X w = (Inr r, w')"
  then show "hash_in_sync X w'" by (rule hash_in_sync_save)
next
  fix r w' bytes assume "Settings_reload X w = (Inr r, w') \<and> settingsFile w = Some bytes"
  then show "hash_in_sync X w'" by (blast intro: hash_in_sync_reload)
next
  fix r w' assume a: "Settings_reload X w = (Inr r, w') \<and> settingsFile w = None"
  with reload_missing_file [of X w r w']
  show "map_option s_hash (settingsInstance w') = Some (sha1_hex X [])"
    and "last_io (events w') = last_io (events w)" by simp_all
next
  fix w' assume a: "Settings_reload X w = (Inl YamlError, w')"
  from reload_throws [OF a]
  show "settingsInstance w' = settingsInstance w" and "settingsFile w \<noteq> None"
    and "last_io (events w') = settingsFile w" by simp_all
next
  fix e w' assume a: "Settings_load X ctx w = (Inl e, w')"
  from load_throws [OF a]
  show "e = YamlError" and "settingsInstance w' = Some (Settings_new (isWorkspace ctx))"
    by simp_all
qed

text \<open>
  The amended C9: a \<open>load()\<close> that writes the defaults, a \<open>save()\<close>, a \<open>reload()\<close> of
  a changed file, a \<open>reload()\<close> without file and a \<open>reload()\<close> on which the parser
  throws.
\<close>

theorem hash_follows_last_io_witness:
  "fst (Settings_load demoExternals demoContext (demoWorld demoMain None None))
     = Inr (Some (demoSettings defaults\<lparr>s_hash := ''sha1:{}''\<rparr>)) \<and>
   hash_in_sync demoExternals
     (snd (Settings_load demoExternals demoContext (demoWorld demoMain None None))) \<and>
   fst (Settings_save demoExternals (demoWorld demoMain None None)) = Inr () \<and>
   hash_in_sync demoExternals
     (snd (Settings_save demoExternals (demoWorld demoMain None None))) \<and>
   settingsFile (demoWorld demoMain None (Some (demoStringify demoWork)))
     = Some (demoStringify demoWork) \<and>
   fst (Settings_reload demoExternals (demoWorld demoMain None (Some (demoStringify demoWork))))
     = Inr True \<and>
   hash_in_sync demoExternals
     (snd (Settings_reload demoExternals
        (demoWorld demoMain None (Some (demoStringify demoWork))))) \<and>
   settingsFile (demoWorld demoMain None None) = None \<and>
   fst (Settings_reload demoExternals (demoWorld demoMain None None)) = Inr True \<and>
   map_option s_hash (settingsInstance
       (snd (Settings_reload demoExternals (demoWorld demoMain None None))))
     = Some ''sha1:'' \<and>
   fst (Settings_reload demoExternals (demoWorld demoMain None (Some ''{profile: work'')))
     = Inl YamlError \<and>
   settingsInstance (snd (Settings_reload demoExternals
       (demoWorld demoMain None (Some ''{profile: work''))))
     = Some (demoSettings demoMain)"
proof -
  let ?W = "demoWorld demoMain None None"
  let ?V = "demoWorld demoMain None (Some (demoStringify demoWork))"
  let ?U = "demoWorld demoMain None (Some ''{profile: work'')"
  have a: "Settings_load demoExternals demoContext ?W
      = (Inr (Some (demoSettings defaults\<lparr>s_hash := ''sha1:{}''\<rparr>)),
         snd (Settings_load demoExternals demoContext ?W))"
    by (simp add: demo_defs model_defs defaults_def prod_eq_iff)
  have b: "Settings_save demoExternals ?W = (Inr (), snd (Settings_save demoExternals ?W))"
    by (simp add: demo_defs model_defs prod_eq_iff)
  have c: "Settings_reload demoExternals ?V = (Inr True, snd (Settings_reload demoExternals ?V))"
    and cf: "settingsFile ?V = Some (demoStringify demoWork)"
    by (simp_all add: demo_defs model_defs prod_eq_iff)
  have d: "Settings_reload demoExternals ?W = (Inr True, snd (Settings_reload demoExternals ?W))"
    and df: "settingsFile ?W = None"
    by (simp_all add: demo_defs model_defs defaults_def prod_eq_iff)
  have e: "Settings_reload demoExternals ?U
      = (Inl YamlError, snd (Settings_reload demoExternals ?U))"
    and ei: "settingsInstance ?U = Some (demoSettings demoMain)"
    by (simp_all add: demo_defs model_defs prod_eq_iff)
  have x: "sha1_hex demoExternals [] = ''sha1:''"
    by (simp add: demo_defs)
  note t1 = hash_follows_last_io [of demoExternals demoContext ?W]
  note t2 = hash_follows_last_io [of demoExternals demoContext ?V]
  note t3 = hash_follows_last_io [of demoExternals demoContext ?U]
  have "hash_in_sync demoExternals (snd (Settings_load demoExternals demoContext ?W))"
    using t1 a by blast
  moreover have "hash_in_sync demoExternals (snd (Settings_save demoExternals ?W))"
    using t1 b by blast
  moreover have "hash_in_sync demoExternals (snd (Settings_reload demoExternals ?V))"
    using t2 c cf by blast
  moreover have "map_option s_hash (settingsInstance (snd (Settings_reload demoExternals ?W)))
      = Some ''sha1:''"
    using t1 d df x by metis
  moreover have "settingsInstance (snd (Settings_reload demoExternals ?U))
      = Some (demoSettings demoMain)"
    using t3 e ei by metis
  ultimately show ?thesis
    using a b c cf d df e by (metis fst_conv)
qed

section \<open>Claim C10\<close>

text \<open>
  Claim C10. For every git document, with no live instance: \<open>get()\<close> installs a
  \<open>LocalGitRepository\<close> iff \<open>path\<close> is a non-empty string, a
  \<open>RemoteGitRepository\<close> iff \<open>path\<close> is not and \<open>url\<close> is, and fails with the
  mysterious-type error iff neither is. In particular \<open>path = ''\<close> with a non-empty
  \<open>url\<close> gives the remote class, and \<open>path = ''\<close> with \<open>url = ''\<close> fails.
\<close>

theorem git_selection_by_truthiness:
  assumes "repositoryInstance w = None" and "settingsInstance w = Some s"
    and "type (s_repository s) = GIT"
  shows "case RepositoryFactory_get X w of (r, w') \<Rightarrow>
     (map_option variant (repositoryInstance w') = Some LocalGitRepository
        \<longleftrightarrow> truthy (path (s_repository s))) \<and>
     (map_option variant (repositoryInstance w') = Some RemoteGitRepository
        \<longleftrightarrow> \<not> truthy (path (s_repository s)) \<and> truthy (url (s_repository s))) \<and>
     (r = Inl (MysteriousType GIT)
        \<longleftrightarrow> \<not> truthy (path (s_repository s)) \<and> \<not> truthy (url (s_repository s))) \<and>
     (path (s_repository s) = Some [] \<and> truthy (url (s_repository s))
        \<longrightarrow> map_option variant (repositoryInstance w') = Some RemoteGitRepository) \<and>
     (path (s_repository s) = Some [] \<and> url (s_repository s) = Some []
        \<longrightarrow> r = Inl (MysteriousType GIT))"
  using assms
  by (auto simp: RepositoryFactory_get_def Settings_get_def create_def instance_setProfile_def
      Let_def truthy_def split: option.splits)

text \<open>
  C10 on the document with \<open>path = ''\<close> and a \<open>url\<close>.
\<close>

theorem git_selection_by_truthiness_witness:
  "repositoryInstance (demoWorld demoGitEmptyPath None None) = None \<and>
   settingsInstance (demoWorld demoGitEmptyPath None None)
     = Some (demoSettings demoGitEmptyPath) \<and>
   type (s_repository (demoSettings demoGitEmptyPath)) = GIT \<and>
   path (s_repository (demoSettings demoGitEmptyPath)) = Some [] \<and>
   truthy (url (s_repository (demoSettings demoGitEmptyPath))) \<and>
   map_option variant (repositoryInstance
       (snd (RepositoryFactory_get demoExternals (demoWorld demoGitEmptyPath None None))))
     = Some RemoteGitRepository"
proof -
  have h1: "repositoryInstance (demoWorld demoGitEmptyPath None None) = None"
    by (simp add: demoWorld_def)
  have h2: "settingsInstance (demoWorld demoGitEmptyPath None None)
      = Some (demoSettings demoGitEmptyPath)"
    by (simp add: demoWorld_def)
  have h3: "type (s_repository (demoSettings demoGitEmptyPath)) = GIT"
    by (simp add: demo_defs)
  have h4: "path (s_repository (demoSettings demoGitEmptyPath)) = Some []"
    by (simp add: demo_defs)
  have h5: "truthy (url (s_repository (demoSettings demoGitEmptyPath)))"
    by (simp add: demo_defs)
  show ?thesis
    using h1 h2 h3 h4 h5 git_selection_by_truthiness [OF h1 h2 h3, where X = demoExternals]
    by (simp add: demo_defs model_defs)
qed

end
